theory Spec2Isabelle
  imports Complex_Main "HOL-Library.Word"
begin

section \<open>Python values shared by all components of backend.py\<close>

text \<open>
  A Python \<open>str\<close> is a sequence of code points, so it is a list of naturals here (a lone
  surrogate such as U+D800 is a legal element of a \<open>str\<close>); \<open>len\<close> is \<open>length\<close>.
  \<open>str_of\<close> turns a literal of the source into that representation. A \<open>bytes\<close> object
  is a list of 8-bit words. A Python number (an \<open>int\<close> or a finite \<open>float\<close>) is a real.
\<close>

type_synonym py_str = "nat list"

definition str_of :: "string \<Rightarrow> py_str" where
  "str_of s = map of_char s"

type_synonym byte = "8 word"
type_synonym bytes = "byte list"

text \<open>An exception object: its class name, and what \<open>str(e)\<close> and \<open>f"{e}"\<close> give.\<close>

datatype py_exn = Exn (exn_class: string) (exn_str: py_str)

text \<open>\<open>round(x)\<close> rounds to the nearest integer, and a half to the even neighbour.\<close>

definition py_round :: "real \<Rightarrow> int" where
  "py_round x =
     (let f = \<lfloor>x\<rfloor>; d = x - of_int f in
      if d < 1 / 2 then f else if 1 / 2 < d then f + 1 else if even f then f else f + 1)"

section \<open>Audio recorder (class AudioRecorder)\<close>

subsection \<open>The file object and \<open>struct.pack\<close>\<close>

text \<open>
  The binary file object that \<open>wave.open(name, "wb")\<close> creates: the bytes written through
  it (what the file holds once flushed) and the position of the next write. A write
  replaces the bytes at the position and extends the file at its end. Writes are taken to
  succeed: errors of the disk are outside the model.
\<close>

record py_file =
  fbytes :: bytes
  fpos :: nat

definition file_write :: "py_file \<Rightarrow> bytes \<Rightarrow> py_file" where
  "file_write f data =
     \<lparr>fbytes = take (fpos f) (fbytes f) @ replicate (fpos f - length (fbytes f)) 0 @ data
                @ drop (fpos f + length data) (fbytes f),
      fpos = fpos f + length data\<rparr>"

definition seek :: "py_file \<Rightarrow> nat \<Rightarrow> py_file" where
  "seek f p = f\<lparr>fpos := p\<rparr>"

text \<open>
  Little-endian fields of 2 and 4 bytes, and \<open>struct.pack\<close> for the formats \<open>H\<close> and \<open>L\<close>,
  which raises \<open>struct.error\<close> on a number that does not fit.
\<close>

definition le16 :: "nat \<Rightarrow> bytes" where
  "le16 n = [of_nat n, of_nat (n div 256)]"

definition le32 :: "nat \<Rightarrow> bytes" where
  "le32 n = [of_nat n, of_nat (n div 256), of_nat (n div 65536), of_nat (n div 16777216)]"

definition struct_error_L :: py_exn where
  "struct_error_L = Exn ''struct.error''
     ([39] @ str_of ''L'' @ [39] @ str_of '' format requires 0 <= number <= 4294967295'')"

definition struct_error_H :: py_exn where
  "struct_error_H = Exn ''struct.error'' (str_of ''ushort format requires 0 <= number <= 65535'')"

definition pack_L :: "nat \<Rightarrow> py_exn + bytes" where
  "pack_L n = (if n < 4294967296 then Inr (le32 n) else Inl struct_error_L)"

definition RIFF :: bytes where "RIFF = [82, 73, 70, 70]"
definition WAVE :: bytes where "WAVE = [87, 65, 86, 69]"
definition fmt_tag :: bytes where "fmt_tag = [102, 109, 116, 32]"
definition data_tag :: bytes where "data_tag = [100, 97, 116, 97]"

text \<open>
  The 36 bytes that follow \<open>RIFF\<close>: \<open>struct.pack('<L4s4sLHHLLHH4s', 36 + datalength,
  b'WAVE', b'fmt ', 16, WAVE_FORMAT_PCM, nchannels, framerate,
  nchannels * framerate * sampwidth, nchannels * sampwidth, sampwidth * 8, b'data')\<close>.
  The arguments are checked in their order.
\<close>

definition fmt_rest :: "nat \<Rightarrow> nat \<Rightarrow> nat \<Rightarrow> bytes" where
  "fmt_rest nch fr sw =
     WAVE @ fmt_tag @ le32 16 @ le16 1 @ le16 nch @ le32 fr
     @ le32 (nch * fr * sw) @ le16 (nch * sw) @ le16 (sw * 8) @ data_tag"

definition fmt_bytes :: "nat \<Rightarrow> nat \<Rightarrow> nat \<Rightarrow> nat \<Rightarrow> bytes" where
  "fmt_bytes datalength nch fr sw = le32 (36 + datalength) @ fmt_rest nch fr sw"

definition pack_fmt :: "nat \<Rightarrow> nat \<Rightarrow> nat \<Rightarrow> nat \<Rightarrow> py_exn + bytes" where
  "pack_fmt datalength nch fr sw =
     (if 4294967296 \<le> 36 + datalength then Inl struct_error_L
      else if 65536 \<le> nch then Inl struct_error_H
      else if 4294967296 \<le> fr then Inl struct_error_L
      else if 4294967296 \<le> nch * fr * sw then Inl struct_error_L
      else if 65536 \<le> nch * sw then Inl struct_error_H
      else if 65536 \<le> sw * 8 then Inl struct_error_H
      else Inr (fmt_bytes datalength nch fr sw))"

text \<open>The 44 bytes of a complete header for the given format and number of data bytes.\<close>

definition wav_header :: "nat \<Rightarrow> nat \<Rightarrow> nat \<Rightarrow> nat \<Rightarrow> bytes" where
  "wav_header nch sw fr datalength = RIFF @ fmt_bytes datalength nch fr sw @ le32 datalength"

subsection \<open>\<open>wave.Wave_write\<close>\<close>

text \<open>
  The writer, with the attributes of the library class that its methods use (little-endian
  host, so the samples are written as they come). \<open>wclosed\<close> stands for \<open>self._file\<close> being
  \<open>None\<close>, which is what \<open>close\<close> leaves; the bytes of the file stay in \<open>wfile\<close>. The field
  \<open>wclose_calls\<close> counts the calls of \<open>close\<close> on the object; it influences nothing. Every
  method returns the exception it raised, if any, and the writer as it is then.
\<close>

record wave_write =
  wfile :: py_file
  wclosed :: bool
  nchannels :: nat
  sampwidth :: nat
  framerate :: nat
  nframes :: nat
  datawritten :: nat
  datalength :: nat
  headerwritten :: bool
  form_length_pos :: nat
  data_length_pos :: nat
  wclose_calls :: nat

definition wave_open :: wave_write where
  "wave_open = \<lparr>wfile = \<lparr>fbytes = [], fpos = 0\<rparr>, wclosed = False, nchannels = 0, sampwidth = 0,
     framerate = 0, nframes = 0, datawritten = 0, datalength = 0, headerwritten = False,
     form_length_pos = 0, data_length_pos = 0, wclose_calls = 0\<rparr>"

definition wave_error :: "string \<Rightarrow> py_exn" where
  "wave_error msg = Exn ''wave.Error'' (str_of msg)"

definition none_has_no_write :: py_exn where
  "none_has_no_write = Exn ''AttributeError''
     ([39] @ str_of ''NoneType'' @ [39] @ str_of '' object has no attribute ''
      @ [39] @ str_of ''write'' @ [39])"

definition setnchannels :: "wave_write \<Rightarrow> nat \<Rightarrow> py_exn + wave_write" where
  "setnchannels w n =
     (if datawritten w \<noteq> 0 then Inl (wave_error ''cannot change parameters after starting to write'')
      else if n < 1 then Inl (wave_error ''bad # of channels'')
      else Inr (w\<lparr>nchannels := n\<rparr>))"

definition setsampwidth :: "wave_write \<Rightarrow> nat \<Rightarrow> py_exn + wave_write" where
  "setsampwidth w n =
     (if datawritten w \<noteq> 0 then Inl (wave_error ''cannot change parameters after starting to write'')
      else if n < 1 \<or> 4 < n then Inl (wave_error ''bad sample width'')
      else Inr (w\<lparr>sampwidth := n\<rparr>))"

text \<open>\<open>self._framerate = int(round(framerate))\<close>: a rate such as 0.4 is stored as 0.\<close>

definition setframerate :: "wave_write \<Rightarrow> real \<Rightarrow> py_exn + wave_write" where
  "setframerate w r =
     (if datawritten w \<noteq> 0 then Inl (wave_error ''cannot change parameters after starting to write'')
      else if r \<le> 0 then Inl (wave_error ''bad frame rate'')
      else Inr (w\<lparr>framerate := nat (py_round r)\<rparr>))"

text \<open>
  \<open>_write_header\<close> writes \<open>RIFF\<close> before it packs the rest, so a number that does not fit
  leaves these four bytes in the file and the header unwritten.
\<close>

definition write_header :: "wave_write \<Rightarrow> nat \<Rightarrow> py_exn option \<times> wave_write" where
  "write_header w initlength =
     (if wclosed w then (Some none_has_no_write, w)
      else
        (let f1 = file_write (wfile w) RIFF;
             n = (if nframes w = 0 then initlength div (nchannels w * sampwidth w) else nframes w);
             dl = n * nchannels w * sampwidth w;
             w1 = w\<lparr>wfile := f1, nframes := n, datalength := dl, form_length_pos := fpos f1\<rparr>
         in case pack_fmt dl (nchannels w) (framerate w) (sampwidth w) of
              Inl e \<Rightarrow> (Some e, w1)
            | Inr hb \<Rightarrow>
               (let f2 = file_write f1 hb;
                    w2 = w1\<lparr>wfile := f2, data_length_pos := fpos f2\<rparr>
                in case pack_L dl of
                     Inl e \<Rightarrow> (Some e, w2)
                   | Inr lb \<Rightarrow> (None, w2\<lparr>wfile := file_write f2 lb, headerwritten := True\<rparr>))))"

definition ensure_header_written :: "wave_write \<Rightarrow> nat \<Rightarrow> py_exn option \<times> wave_write" where
  "ensure_header_written w datasize =
     (if headerwritten w then (None, w)
      else if nchannels w = 0 then (Some (wave_error ''# channels not specified''), w)
      else if sampwidth w = 0 then (Some (wave_error ''sample width not specified''), w)
      else if framerate w = 0 then (Some (wave_error ''sampling rate not specified''), w)
      else write_header w datasize)"

text \<open>
  \<open>_patchheader\<close> seeks to the first length field before it packs the new length, so a
  length that does not fit leaves the position there.
\<close>

definition patchheader :: "wave_write \<Rightarrow> py_exn option \<times> wave_write" where
  "patchheader w =
     (if datawritten w = datalength w then (None, w)
      else
        (let curpos = fpos (wfile w);
             f1 = seek (wfile w) (form_length_pos w)
         in case pack_L (36 + datawritten w) of
              Inl e \<Rightarrow> (Some e, w\<lparr>wfile := f1\<rparr>)
            | Inr b1 \<Rightarrow>
               (let f2 = seek (file_write f1 b1) (data_length_pos w)
                in case pack_L (datawritten w) of
                     Inl e \<Rightarrow> (Some e, w\<lparr>wfile := f2\<rparr>)
                   | Inr b2 \<Rightarrow>
                      (None, w\<lparr>wfile := seek (file_write f2 b2) curpos,
                               datalength := datawritten w\<rparr>))))"

definition writeframesraw :: "wave_write \<Rightarrow> bytes \<Rightarrow> py_exn option \<times> wave_write" where
  "writeframesraw w data =
     (case ensure_header_written w (length data) of
        (Some e, w1) \<Rightarrow> (Some e, w1)
      | (None, w1) \<Rightarrow>
          if wclosed w1 then (Some none_has_no_write, w1)
          else (None, w1\<lparr>wfile := file_write (wfile w1) data,
                         datawritten := datawritten w1 + length data\<rparr>))"

definition writeframes :: "wave_write \<Rightarrow> bytes \<Rightarrow> py_exn option \<times> wave_write" where
  "writeframes w data =
     (case writeframesraw w data of
        (Some e, w1) \<Rightarrow> (Some e, w1)
      | (None, w1) \<Rightarrow> if datalength w1 \<noteq> datawritten w1 then patchheader w1 else (None, w1))"

text \<open>
  \<open>close\<close> on an open writer writes the header if needed and patches it, and sets
  \<open>self._file\<close> to \<open>None\<close> in its \<open>finally\<close> clause, whatever was raised; on a closed writer
  it does nothing.
\<close>

definition wave_close :: "wave_write \<Rightarrow> py_exn option \<times> wave_write" where
  "wave_close w =
     (let w1 = w\<lparr>wclose_calls := Suc (wclose_calls w)\<rparr> in
      if wclosed w1 then (None, w1)
      else
        (case ensure_header_written w1 0 of
           (Some e, w2) \<Rightarrow> (Some e, w2\<lparr>wclosed := True\<rparr>)
         | (None, w2) \<Rightarrow>
            (case (if datalength w2 \<noteq> datawritten w2 then patchheader w2 else (None, w2)) of
               (r, w3) \<Rightarrow> (r, w3\<lparr>wclosed := True\<rparr>))))"

subsection \<open>\<open>sounddevice.RawInputStream\<close>\<close>

text \<open>
  \<open>sounddevice.RawInputStream\<close>. \<open>stop()\<close> and \<open>close()\<close> are called with their default
  \<open>ignore_errors=True\<close>, so neither raises; \<open>sclose_calls\<close> counts the calls of \<open>close\<close>.
\<close>

record raw_input_stream =
  sactive :: bool
  sclosed :: bool
  sclose_calls :: nat

definition stream_new :: raw_input_stream where
  "stream_new = \<lparr>sactive = False, sclosed = False, sclose_calls = 0\<rparr>"

definition stream_stop :: "raw_input_stream \<Rightarrow> raw_input_stream" where
  "stream_stop st = st\<lparr>sactive := False\<rparr>"

definition stream_close :: "raw_input_stream \<Rightarrow> raw_input_stream" where
  "stream_close st = st\<lparr>sactive := False, sclosed := True, sclose_calls := Suc (sclose_calls st)\<rparr>"

text \<open>
  What the outside world answers when \<open>start\<close> opens its two handles: \<open>None\<close> is success,
  \<open>Some e\<close> the exception raised.
\<close>

record audio_env =
  wave_open_error :: "py_str \<Rightarrow> py_exn option"
  stream_open_error :: "real \<Rightarrow> py_exn option"
  stream_start_error :: "py_exn option"

subsection \<open>The recorder\<close>

record AudioRecorder =
  output_filename :: py_str
  sample_rate :: real
  audio_queue :: "bytes list"
  recording :: bool
  wav_file :: "wave_write option"
  stream :: "raw_input_stream option"

definition AudioRecorder_init :: "py_str \<Rightarrow> real \<Rightarrow> AudioRecorder" where
  "AudioRecorder_init fname rate =
     \<lparr>output_filename = fname, sample_rate = rate, audio_queue = [], recording = False,
      wav_file = None, stream = None\<rparr>"

text \<open>
  \<open>sounddevice.CallbackFlags\<close>: true when a flag is set; \<open>str\<close> lists the set flags.
\<close>

record callback_flags =
  input_overflow :: bool
  input_underflow :: bool
  output_overflow :: bool
  output_underflow :: bool
  priming_output :: bool

definition flags_set :: "callback_flags \<Rightarrow> string list" where
  "flags_set f =
     (if input_overflow f then [''input overflow''] else []) @
     (if input_underflow f then [''input underflow''] else []) @
     (if output_overflow f then [''output overflow''] else []) @
     (if output_underflow f then [''output underflow''] else []) @
     (if priming_output f then [''priming output''] else [])"

fun join_comma :: "string list \<Rightarrow> string" where
  "join_comma [] = []"
| "join_comma [x] = x"
| "join_comma (x # y # ys) = x @ '', '' @ join_comma (y # ys)"

text \<open>
  \<open>_callback\<close>: the new recorder and the lines printed to \<open>sys.stderr\<close>. The queue is
  unbounded, so \<open>put\<close> always appends.
\<close>

definition callback :: "AudioRecorder \<Rightarrow> bytes \<Rightarrow> int \<Rightarrow> int \<Rightarrow> callback_flags
    \<Rightarrow> AudioRecorder \<times> py_str list" where
  "callback self indata frames time status =
     (self\<lparr>audio_queue := audio_queue self @ [indata]\<rparr>,
      if flags_set status \<noteq> []
      then [str_of (''Audio Error: '' @ join_comma (flags_set status))] else [])"

text \<open>
  \<open>start\<close>: the exception raised, if any, and the recorder as the assignments made before
  the raise leave it. \<open>self.wav_file\<close> is assigned before the three setters run on it.
\<close>

definition start :: "audio_env \<Rightarrow> AudioRecorder \<Rightarrow> py_exn option \<times> AudioRecorder" where
  "start env self =
     (let s1 = self\<lparr>recording := True\<rparr> in
      case wave_open_error env (output_filename s1) of
        Some e \<Rightarrow> (Some e, s1)
      | None \<Rightarrow>
         (case setnchannels wave_open 1 of
            Inl e \<Rightarrow> (Some e, s1\<lparr>wav_file := Some wave_open\<rparr>)
          | Inr w1 \<Rightarrow>
             (case setsampwidth w1 2 of
                Inl e \<Rightarrow> (Some e, s1\<lparr>wav_file := Some w1\<rparr>)
              | Inr w2 \<Rightarrow>
                 (case setframerate w2 (sample_rate s1) of
                    Inl e \<Rightarrow> (Some e, s1\<lparr>wav_file := Some w2\<rparr>)
                  | Inr w3 \<Rightarrow>
                     (let s2 = s1\<lparr>wav_file := Some w3\<rparr> in
                      case stream_open_error env (sample_rate s2) of
                        Some e \<Rightarrow> (Some e, s2)
                      | None \<Rightarrow>
                         (let s3 = s2\<lparr>stream := Some stream_new\<rparr> in
                          case stream_start_error env of
                            Some e \<Rightarrow> (Some e, s3)
                          | None \<Rightarrow>
                             (None, s3\<lparr>stream := Some (stream_new\<lparr>sactive := True\<rparr>)\<rparr>)))))))"

text \<open>
  \<open>stop\<close>: both tests are on the attribute being an object (neither library class
  defines \<open>__bool__\<close> or \<open>__len__\<close>), and no attribute is reset.
\<close>

definition stop :: "AudioRecorder \<Rightarrow> py_exn option \<times> AudioRecorder" where
  "stop self =
     (let s1 = self\<lparr>recording := False\<rparr>;
          s2 = (case stream s1 of
                  None \<Rightarrow> s1
                | Some st \<Rightarrow> s1\<lparr>stream := Some (stream_close (stream_stop st))\<rparr>)
      in case wav_file s2 of
           None \<Rightarrow> (None, s2)
         | Some w \<Rightarrow> (case wave_close w of (r, w') \<Rightarrow> (r, s2\<lparr>wav_file := Some w'\<rparr>)))"

text \<open>
  \<open>process_queue\<close> is a generator. One \<open>next\<close> on it (the first on a new generator or a
  later one, the loop test is the same) either finds the queue empty and ends the
  generator (\<open>Inr None\<close>), or takes the oldest chunk, writes it when \<open>wav_file\<close> is an
  object, and yields it (\<open>Inr (Some data)\<close>); a raise of \<open>writeframes\<close> leaves the
  generator with the chunk already taken (\<open>Inl e\<close>).
\<close>

definition process_queue_next :: "AudioRecorder \<Rightarrow> (py_exn + bytes option) \<times> AudioRecorder" where
  "process_queue_next self =
     (case audio_queue self of
        [] \<Rightarrow> (Inr None, self)
      | data # rest \<Rightarrow>
         (let s1 = self\<lparr>audio_queue := rest\<rparr> in
          case wav_file s1 of
            None \<Rightarrow> (Inr (Some data), s1)
          | Some w \<Rightarrow>
             (case writeframes w data of
                (Some e, w') \<Rightarrow> (Inl e, s1\<lparr>wav_file := Some w'\<rparr>)
              | (None, w') \<Rightarrow> (Inr (Some data), s1\<lparr>wav_file := Some w'\<rparr>))))"

text \<open>
  \<open>for data in recorder.process_queue(): ...\<close> run to the end with no callback in
  between: the exception that ended it, if any, the chunks yielded, and the recorder.
\<close>

function process_queue :: "AudioRecorder \<Rightarrow> py_exn option \<times> bytes list \<times> AudioRecorder" where
  "process_queue self =
     (case process_queue_next self of
        (Inl e, s') \<Rightarrow> (Some e, [], s')
      | (Inr None, s') \<Rightarrow> (None, [], s')
      | (Inr (Some data), s') \<Rightarrow>
          (case process_queue s' of (r, ys, s'') \<Rightarrow> (r, data # ys, s'')))"
  by pat_completeness auto
termination
  apply (relation "measure (\<lambda>s. length (audio_queue s))")
   apply simp
  apply (auto simp: process_queue_next_def Let_def
      split: list.splits option.splits sum.splits prod.splits)
  done

subsection \<open>A recording session\<close>




text \<open>
  A writer as \<open>start\<close> sets it up (mono, 2 bytes per sample, a rate from 1 to
  \<open>2\<^sup>3\<^sup>1 - 1\<close>) that is open and has been given the data \<open>d\<close> so far: either nothing
  has been written and the file is empty, or the file holds the header for \<open>d\<close> and then
  \<open>d\<close>, with the position at its end.
\<close>

definition recording_to :: "wave_write \<Rightarrow> bytes \<Rightarrow> bool" where
  "recording_to w d \<longleftrightarrow>
     \<not> wclosed w \<and> nchannels w = 1 \<and> sampwidth w = 2 \<and> 0 < framerate w
     \<and> framerate w < 2147483648 \<and> datawritten w = length d
     \<and> (if headerwritten w
         then fbytes (wfile w) = wav_header 1 2 (framerate w) (length d) @ d
              \<and> fpos (wfile w) = 44 + length d \<and> datalength w = length d
              \<and> form_length_pos w = 4 \<and> data_length_pos w = 40
         else d = [] \<and> fbytes (wfile w) = [] \<and> fpos (wfile w) = 0 \<and> nframes w = 0)"

text \<open>An environment in which both handles open, and a callback status with no flag.\<close>

definition env_ok :: audio_env where
  "env_ok = \<lparr>wave_open_error = (\<lambda>_. None), stream_open_error = (\<lambda>_. None),
     stream_start_error = None\<rparr>"

definition no_flags :: callback_flags where
  "no_flags = \<lparr>input_overflow = False, input_underflow = False, output_overflow = False,
     output_underflow = False, priming_output = False\<rparr>"

section \<open>Files, paths and the outside world\<close>

text \<open>
  A file holds bytes. A location is what a path leads to once the kernel has resolved it:
  the names from the root, every symbolic link followed.
\<close>

datatype node = File bytes | Dir

type_synonym loc = "py_str list"

text \<open>
  Every file or network operation the program performs is appended to \<open>io_log\<close>.
\<close>

datatype io_event =
    OpenFile py_str string
  | RemoveFile py_str
  | ExtractAll py_str
  | HttpGet py_str
  | GroqTranscription py_str
  | GroqChat py_str
  | Smtp string

text \<open>
  The machine: the working directory (\<open>os.getcwd()\<close>); the kernel's path resolution, which
  gives the location a path names or the exception of the failed lookup (a missing
  directory on the way, a directory that may not be searched, a loop of links), a path
  whose last name does not exist yet leading to the location where it would be created;
  what is at each location; the exception, if any, with which the kernel refuses to read,
  to create or truncate, or to remove the file at a location (\<open>PermissionError\<close>, a
  read-only file system); the I/O performed so far; and the lines printed to standard
  output. Creating, writing or removing a regular file changes neither where a path
  leads nor what is refused.
\<close>

datatype access = Read | Write | Remove

record world =
  cwd :: py_str
  resolve :: "py_str \<Rightarrow> py_exn + loc"
  nodes :: "loc \<rightharpoonup> node"
  denied :: "loc \<Rightarrow> access \<Rightarrow> py_exn option"
  io_log :: "io_event list"
  stdout :: "py_str list"

subsection \<open>posixpath\<close>

text \<open>
  \<open>os.path.abspath\<close> works on the text of the path alone: it joins a relative path to the
  working directory and normalises the result without looking at the file system.
\<close>

definition sep :: nat where "sep = 47"
definition dot :: py_str where "dot = [46]"
definition dotdot :: py_str where "dotdot = [46, 46]"

definition startswith :: "py_str \<Rightarrow> py_str \<Rightarrow> bool" where
  "startswith p pre \<longleftrightarrow> take (length pre) p = pre"


fun split_sep :: "py_str \<Rightarrow> py_str list" where
  "split_sep [] = [[]]"
| "split_sep (c # cs) =
     (if c = sep then [] # split_sep cs
      else (case split_sep cs of [] \<Rightarrow> [[c]] | x # xs \<Rightarrow> (c # x) # xs))"







subsection \<open>UTF-8 and newlines\<close>

text \<open>
  The \<open>utf-8\<close> codec as Python has it: the encoder refuses surrogate code points, the
  decoder refuses what is not the shortest encoding of a code point that is not a
  surrogate.
\<close>

definition is_surrogate :: "nat \<Rightarrow> bool" where
  "is_surrogate c \<longleftrightarrow> 0xD800 \<le> c \<and> c \<le> 0xDFFF"



definition unicode_encode_error :: py_exn where
  "unicode_encode_error = Exn ''UnicodeEncodeError'' (str_of ''surrogates not allowed'')"







subsection \<open>The file operations used\<close>

text \<open>\<open>os.path.exists\<close> (false on the empty path) and \<open>os.path.isdir\<close>.\<close>

definition os_path_exists :: "world \<Rightarrow> py_str \<Rightarrow> bool" where
  "os_path_exists w p \<longleftrightarrow>
     p \<noteq> [] \<and> (case resolve w p of Inl e \<Rightarrow> False | Inr l \<Rightarrow> nodes w l \<noteq> None)"

definition os_path_isdir :: "world \<Rightarrow> py_str \<Rightarrow> bool" where
  "os_path_isdir w p \<longleftrightarrow>
     p \<noteq> [] \<and> (case resolve w p of Inl e \<Rightarrow> False | Inr l \<Rightarrow> nodes w l = Some Dir)"

definition py_repr :: "py_str \<Rightarrow> py_str" where
  "py_repr p = [39] @ p @ [39]"

definition file_not_found :: "py_str \<Rightarrow> py_exn" where
  "file_not_found p = Exn ''FileNotFoundError''
     (str_of ''[Errno 2] No such file or directory: '' @ py_repr p)"

definition is_a_directory :: "py_str \<Rightarrow> py_exn" where
  "is_a_directory p = Exn ''IsADirectoryError''
     (str_of ''[Errno 21] Is a directory: '' @ py_repr p)"

definition log_io :: "world \<Rightarrow> io_event \<Rightarrow> world" where
  "log_io w ev = w\<lparr>io_log := io_log w @ [ev]\<rparr>"

text \<open>
  \<open>open(p, "w")\<close> and \<open>open(p, "wb")\<close>: the exception raised, or the location of the file,
  which is created or truncated. \<open>open(p, "rb").read()\<close>: the exception raised or the
  bytes. \<open>os.remove(p)\<close>. All log the call. Once a file is open, writing to it and
  closing it are taken to succeed: a disk that fills up is outside the model.
\<close>

definition open_w :: "world \<Rightarrow> py_str \<Rightarrow> string \<Rightarrow> (py_exn + loc) \<times> world" where
  "open_w w p mode =
     (let w1 = log_io w (OpenFile p mode) in
      if p = [] then (Inl (file_not_found p), w1)
      else (case resolve w p of
              Inl e \<Rightarrow> (Inl e, w1)
            | Inr l \<Rightarrow>
               (case nodes w l of
                  Some Dir \<Rightarrow> (Inl (is_a_directory p), w1)
                | _ \<Rightarrow>
                   (case denied w l Write of
                      Some e \<Rightarrow> (Inl e, w1)
                    | None \<Rightarrow> (Inr l, w1\<lparr>nodes := (nodes w1)(l \<mapsto> File [])\<rparr>)))))"

definition open_rb_read :: "world \<Rightarrow> py_str \<Rightarrow> (py_exn + bytes) \<times> world" where
  "open_rb_read w p =
     (let w1 = log_io w (OpenFile p ''rb'') in
      if p = [] then (Inl (file_not_found p), w1)
      else (case resolve w p of
              Inl e \<Rightarrow> (Inl e, w1)
            | Inr l \<Rightarrow>
               (case nodes w l of
                  None \<Rightarrow> (Inl (file_not_found p), w1)
                | Some Dir \<Rightarrow> (Inl (is_a_directory p), w1)
                | Some (File c) \<Rightarrow>
                   (case denied w l Read of
                      Some e \<Rightarrow> (Inl e, w1)
                    | None \<Rightarrow> (Inr c, w1)))))"

definition os_remove :: "world \<Rightarrow> py_str \<Rightarrow> py_exn option \<times> world" where
  "os_remove w p =
     (let w1 = log_io w (RemoveFile p) in
      if p = [] then (Some (file_not_found p), w1)
      else (case resolve w p of
              Inl e \<Rightarrow> (Some e, w1)
            | Inr l \<Rightarrow>
               (case nodes w l of
                  None \<Rightarrow> (Some (file_not_found p), w1)
                | Some Dir \<Rightarrow> (Some (is_a_directory p), w1)
                | Some (File c) \<Rightarrow>
                   (case denied w l Remove of
                      Some e \<Rightarrow> (Some e, w1)
                    | None \<Rightarrow> (None, w1\<lparr>nodes := (nodes w1)(l := None)\<rparr>)))))"


definition print :: "world \<Rightarrow> py_str \<Rightarrow> world" where
  "print w line = w\<lparr>stdout := stdout w @ [line]\<rparr>"

subsection \<open>The remote services and library parsers\<close>

text \<open>
  What the network and the libraries answer, \<open>Inl e\<close> or \<open>Some e\<close> being the exception
  raised (every one of them a subclass of \<open>Exception\<close>): the HTTP server, the \<open>int\<close>
  conversion of a header, \<open>ZipFile(...).extractall()\<close> (the world once the archive with these
  bytes is unpacked below the working directory), the two Groq endpoints (the chat
  endpoint gives the message contents of the choices), the steps of the SMTP session and
  the serialisation of a message.
\<close>

record http_response =
  content_length :: "py_str option"
  iter_content :: "bytes list"
  body_error :: "py_exn option"

record mime_text =
  payload :: py_str
  charset :: string

record mime_multipart =
  headers :: "(string \<times> py_str) list"
  parts :: "mime_text list"

record services =
  http_get :: "py_str \<Rightarrow> py_exn + http_response"
  py_int :: "py_str \<Rightarrow> py_exn + int"
  zip_extractall :: "world \<Rightarrow> bytes \<Rightarrow> py_exn + world"
  groq_transcribe :: "py_str \<Rightarrow> py_str \<Rightarrow> bytes \<Rightarrow> py_exn + py_str"
  groq_chat :: "py_str \<Rightarrow> py_str \<Rightarrow> py_exn + py_str list"
  smtp_connect :: "py_str \<Rightarrow> nat \<Rightarrow> py_exn option"
  smtp_starttls :: "py_exn option"
  smtp_login :: "py_str \<Rightarrow> py_str \<Rightarrow> py_exn option"
  smtp_sendmail :: "py_str \<Rightarrow> py_str \<Rightarrow> py_str \<Rightarrow> py_exn option"
  smtp_quit :: "py_exn option"
  as_string :: "mime_multipart \<Rightarrow> py_exn + py_str"

section \<open>Model downloader (check_and_download_model)\<close>

text \<open>
  The result is the exception raised or the value returned, and the world afterwards.
  The progress bar only writes to the terminal and is left out.
\<close>

definition check_and_download_model :: "services \<Rightarrow> world \<Rightarrow> py_str \<Rightarrow> (py_exn + py_str) \<times> world" where
  "check_and_download_model env w model_name =
     (if \<not> os_path_exists w model_name then
        (let w1 = print w (str_of ''Model '' @ [39] @ model_name @ [39]
                           @ str_of '' not found. Downloading...'');
             url = str_of ''https://alphacephei.com/vosk/models/'' @ model_name @ str_of ''.zip'';
             zip = model_name @ str_of ''.zip'';
             w2 = log_io w1 (HttpGet url)
         in case http_get env url of
              Inl e \<Rightarrow> (Inl e, w2)
            | Inr response \<Rightarrow>
               (case (case content_length response of None \<Rightarrow> Inr 0 | Some v \<Rightarrow> py_int env v) of
                  Inl e \<Rightarrow> (Inl e, w2)
                | Inr total_size \<Rightarrow>
                   (case open_w w2 zip ''wb'' of
                      (Inl e, w3) \<Rightarrow> (Inl e, w3)
                    | (Inr l, w3) \<Rightarrow>
                       (let w4 = w3\<lparr>nodes := (nodes w3)(l \<mapsto> File (concat (iter_content response)))\<rparr>
                        in case body_error response of
                             Some e \<Rightarrow> (Inl e, w4)
                           | None \<Rightarrow>
                              (let w5 = log_io (log_io (print w4 (str_of ''Unzipping model...''))
                                                  (OpenFile zip ''r''))
                                          (ExtractAll zip)
                               in case zip_extractall env w5 (concat (iter_content response)) of
                                    Inl e \<Rightarrow> (Inl e, w5)
                                  | Inr w6 \<Rightarrow>
                                     (case os_remove w6 zip of
                                        (Some e, w7) \<Rightarrow> (Inl e, w7)
                                      | (None, w7) \<Rightarrow>
                                         (Inr model_name, print w7 (str_of ''Model ready.''))))))))
      else (Inr model_name, w))"

section \<open>Speech to text (class STTEngine)\<close>

datatype groq = Groq (key_of: py_str)

datatype STTEngine = STTEngine (stt_client: "groq option")

text \<open>
  \<open>Groq(api_key=api_key) if api_key else None\<close>: \<open>None\<close> and the empty string are both
  false.
\<close>

definition groq_client :: "py_str option \<Rightarrow> groq option" where
  "groq_client api_key =
     (case api_key of None \<Rightarrow> None | Some k \<Rightarrow> if k \<noteq> [] then Some (Groq k) else None)"

definition STTEngine_init :: "py_str option \<Rightarrow> STTEngine" where
  "STTEngine_init api_key = STTEngine (groq_client api_key)"

text \<open>\<open>process_chunk\<close> returns Python's \<open>None\<close>, never a piece of transcript.\<close>

definition process_chunk :: "STTEngine \<Rightarrow> bytes \<Rightarrow> py_str option" where
  "process_chunk self data = None"

definition transcribe_file :: "services \<Rightarrow> world \<Rightarrow> STTEngine \<Rightarrow> py_str \<Rightarrow> py_str \<times> world" where
  "transcribe_file env w self filename =
     (case stt_client self of
        None \<Rightarrow> (str_of ''Error: Groq API Key missing.'', w)
      | Some c \<Rightarrow>
         (case open_rb_read w filename of
            (Inl e, w1) \<Rightarrow> (str_of ''Transcription Error: '' @ exn_str e, w1)
          | (Inr data, w1) \<Rightarrow>
             (let w2 = log_io w1 (GroqTranscription filename) in
              case groq_transcribe env (key_of c) filename data of
                Inl e \<Rightarrow> (str_of ''Transcription Error: '' @ exn_str e, w2)
              | Inr text \<Rightarrow> (text, w2))))"

section \<open>Summarizer (class MeetingSummarizer)\<close>

datatype MeetingSummarizer = MeetingSummarizer (ms_client: "groq option")

definition MeetingSummarizer_init :: "py_str option \<Rightarrow> MeetingSummarizer" where
  "MeetingSummarizer_init api_key = MeetingSummarizer (groq_client api_key)"

definition nl :: py_str where "nl = [10]"
definition indent :: py_str where "indent = replicate 8 32"

definition prompt :: "py_str \<Rightarrow> py_str" where
  "prompt transcript =
     nl @ indent @ str_of ''You are an expert secretary. Summarize this meeting transcript properly.''
     @ nl @ indent
     @ nl @ indent @ str_of ''Transcript:''
     @ nl @ indent @ transcript
     @ nl @ indent
     @ nl @ indent @ str_of ''Output format:''
     @ nl @ indent @ str_of ''## Meeting Summary''
     @ nl @ indent @ str_of ''* **Topic:** [Topic]''
     @ nl @ indent @ str_of ''* **Key Points:** [Bulleted list]''
     @ nl @ indent @ str_of ''* **Action Items:** [List of tasks]''
     @ nl @ indent"

text \<open>
  The transcript may be \<open>None\<close>: \<open>not transcript\<close> is true for \<open>None\<close> and for the empty
  string. \<open>chat.choices[0]\<close> raises \<open>IndexError\<close> inside the \<open>try\<close> when there is no choice.
\<close>

definition generate_summary :: "services \<Rightarrow> world \<Rightarrow> MeetingSummarizer \<Rightarrow> py_str option
    \<Rightarrow> py_str \<times> world" where
  "generate_summary env w self transcript =
     (case ms_client self of
        None \<Rightarrow> (str_of ''Error: Groq API Key missing.'', w)
      | Some c \<Rightarrow>
         (case transcript of
            None \<Rightarrow> (str_of ''Transcript too short to summarize.'', w)
          | Some t \<Rightarrow>
             if t = [] \<or> length t < 5 then (str_of ''Transcript too short to summarize.'', w)
             else
               (let w1 = log_io w (GroqChat (prompt t)) in
                case groq_chat env (key_of c) (prompt t) of
                  Inl e \<Rightarrow> (str_of ''Groq Error: '' @ exn_str e, w1)
                | Inr choices \<Rightarrow>
                   (case choices of
                      [] \<Rightarrow> (str_of ''Groq Error: '' @ str_of ''list index out of range'', w1)
                    | m # _ \<Rightarrow> (m, w1)))))"

section \<open>Utilities (save_to_md, send_email_func)\<close>


text \<open>
  \<open>MIMEText(body, 'plain')\<close> picks \<open>us-ascii\<close> for an ASCII body and \<open>utf-8\<close> otherwise, and
  encodes the body with the \<open>surrogateescape\<close> handler, which accepts the surrogates
  U+DC80..U+DCFF and raises on any other (the message of the exception is shortened to
  the reason).
\<close>

definition surrogateescape_encodable :: "py_str \<Rightarrow> bool" where
  "surrogateescape_encodable t =
     list_all (\<lambda>c. (if is_surrogate c then 0xDC80 \<le> c \<and> c \<le> 0xDCFF else True)) t"

definition MIMEText :: "py_str \<Rightarrow> py_exn + mime_text" where
  "MIMEText text =
     (if list_all (\<lambda>c. c < 128) text then Inr \<lparr>payload = text, charset = ''us-ascii''\<rparr>
      else if surrogateescape_encodable text then Inr \<lparr>payload = text, charset = ''utf-8''\<rparr>
      else Inl unicode_encode_error)"

text \<open>The body of the \<open>try\<close> block: the exception that left it, if any.\<close>

definition smtp_session :: "services \<Rightarrow> world \<Rightarrow> py_str \<Rightarrow> py_str \<Rightarrow> py_str \<Rightarrow> mime_multipart
    \<Rightarrow> py_exn option \<times> world" where
  "smtp_session env w user password recipient msg =
     (let w1 = log_io w (Smtp ''connect'') in
      case smtp_connect env (str_of ''smtp.gmail.com'') 587 of
        Some e \<Rightarrow> (Some e, w1)
      | None \<Rightarrow>
         (let w2 = log_io w1 (Smtp ''starttls'') in
          case smtp_starttls env of
            Some e \<Rightarrow> (Some e, w2)
          | None \<Rightarrow>
             (let w3 = log_io w2 (Smtp ''login'') in
              case smtp_login env user password of
                Some e \<Rightarrow> (Some e, w3)
              | None \<Rightarrow>
                 (case as_string env msg of
                    Inl e \<Rightarrow> (Some e, w3)
                  | Inr text \<Rightarrow>
                     (let w4 = log_io w3 (Smtp ''sendmail'') in
                      case smtp_sendmail env user recipient text of
                        Some e \<Rightarrow> (Some e, w4)
                      | None \<Rightarrow>
                         (let w5 = log_io w4 (Smtp ''quit'') in
                          case smtp_quit env of
                            Some e \<Rightarrow> (Some e, w5)
                          | None \<Rightarrow> (None, w5)))))))"

text \<open>
  The message is built before the \<open>try\<close>: an exception of \<open>MIMEText\<close> reaches the caller
  (\<open>Inl\<close>); one of the session is turned into the returned string.
\<close>

definition send_email_func :: "services \<Rightarrow> world \<Rightarrow> py_str \<Rightarrow> py_str \<Rightarrow> py_str \<Rightarrow> py_str \<Rightarrow> py_str
    \<Rightarrow> (py_exn + py_str) \<times> world" where
  "send_email_func env w user password recipient subject body =
     (let msg = \<lparr>headers = [(''From'', user), (''To'', recipient), (''Subject'', subject)],
                 parts = []\<rparr>
      in case MIMEText body of
           Inl e \<Rightarrow> (Inl e, w)
         | Inr part \<Rightarrow>
            (case smtp_session env w user password recipient (msg\<lparr>parts := parts msg @ [part]\<rparr>) of
               (None, w') \<Rightarrow> (Inr (str_of ''Email sent!''), w')
             | (Some e, w') \<Rightarrow> (Inr (str_of ''Email Error: '' @ exn_str e), w')))"

section \<open>A machine and services to evaluate on\<close>

text \<open>
  A small file tree with directories, regular files and symbolic links, and the lookup the
  kernel performs on it: name by name from the root or from the working directory, an
  empty name and \<open>.\<close> staying in place, \<open>..\<close> going to the parent of the directory reached,
  a link continuing with its target (at most 40 links), the last name allowed to be
  missing.
\<close>

datatype entry = Directory | Regular bytes | Link py_str

datatype errno = ENOENT | ENOTDIR | ELOOP

fun walk :: "(loc \<times> entry) list \<Rightarrow> nat \<Rightarrow> loc \<Rightarrow> py_str list \<Rightarrow> errno + loc" where
  "walk t fuel cur [] = Inr cur"
| "walk t fuel cur (c # rest) =
     (if c = [] \<or> c = dot then walk t fuel cur rest
      else if c = dotdot then walk t fuel (butlast cur) rest
      else
        (case map_of t (cur @ [c]) of
           None \<Rightarrow> if rest = [] then Inr (cur @ [c]) else Inl ENOENT
         | Some Directory \<Rightarrow> walk t fuel (cur @ [c]) rest
         | Some (Regular b) \<Rightarrow> if rest = [] then Inr (cur @ [c]) else Inl ENOTDIR
         | Some (Link target) \<Rightarrow>
            (case fuel of
               0 \<Rightarrow> Inl ELOOP
             | Suc n \<Rightarrow>
                walk t n (if startswith target [sep] then [] else cur)
                  (split_sep target @ rest))))"

definition os_error :: "errno \<Rightarrow> py_str \<Rightarrow> py_exn" where
  "os_error e p =
     (case e of
        ENOENT \<Rightarrow> file_not_found p
      | ENOTDIR \<Rightarrow> Exn ''NotADirectoryError'' (str_of ''[Errno 20] Not a directory: '' @ py_repr p)
      | ELOOP \<Rightarrow> Exn ''OSError''
                   (str_of ''[Errno 40] Too many levels of symbolic links: '' @ py_repr p))"

definition kernel_resolve :: "(loc \<times> entry) list \<Rightarrow> loc \<Rightarrow> py_str \<Rightarrow> py_exn + loc" where
  "kernel_resolve t cwd_loc p =
     (if p = [] then Inl (file_not_found p)
      else (case walk t 40 (if startswith p [sep] then [] else cwd_loc) (split_sep p) of
              Inl e \<Rightarrow> Inl (os_error e p)
            | Inr l \<Rightarrow> Inr l))"

definition tree_nodes :: "(loc \<times> entry) list \<Rightarrow> loc \<rightharpoonup> node" where
  "tree_nodes t l =
     (if l = [] then Some Dir
      else (case map_of t l of
              Some Directory \<Rightarrow> Some Dir
            | Some (Regular b) \<Rightarrow> Some (File b)
            | _ \<Rightarrow> None))"

text \<open>
  A machine whose working directory \<open>/home/user\<close> holds the speech model's directory, a
  recording and a symbolic link \<open>d\<close> to the directory \<open>/srv/notes\<close>, and on which nothing
  is refused; and services that are all unreachable or refuse their input.
\<close>

definition home_tree :: "(loc \<times> entry) list" where
  "home_tree =
     [([str_of ''home''], Directory),
      ([str_of ''home'', str_of ''user''], Directory),
      ([str_of ''home'', str_of ''user'', str_of ''vosk-model-small-en-us-0.15''], Directory),
      ([str_of ''home'', str_of ''user'', str_of ''temp_meeting.wav''], Regular [82, 73, 70, 70]),
      ([str_of ''home'', str_of ''user'', str_of ''d''], Link (str_of ''/srv/notes'')),
      ([str_of ''srv''], Directory),
      ([str_of ''srv'', str_of ''notes''], Directory)]"

definition home :: world where
  "home = \<lparr>cwd = str_of ''/home/user'',
     resolve = kernel_resolve home_tree [str_of ''home'', str_of ''user''],
     nodes = tree_nodes home_tree,
     denied = (\<lambda>_ _. None),
     io_log = [], stdout = []\<rparr>"

definition offline :: services where
  "offline = \<lparr>
     http_get = (\<lambda>_. Inl (Exn ''ConnectionError'' (str_of ''Max retries exceeded''))),
     py_int = (\<lambda>_. Inl (Exn ''ValueError'' (str_of ''invalid literal for int()''))),
     zip_extractall = (\<lambda>_ _. Inl (Exn ''BadZipFile'' (str_of ''File is not a zip file''))),
     groq_transcribe = (\<lambda>_ _ _. Inl (Exn ''APIConnectionError'' (str_of ''Connection error.''))),
     groq_chat = (\<lambda>_ _. Inl (Exn ''APIConnectionError'' (str_of ''Connection error.''))),
     smtp_connect = (\<lambda>_ _. Some (Exn ''gaierror'' (str_of ''[Errno -2] Name or service not known''))),
     smtp_starttls = None,
     smtp_login = (\<lambda>_ _. Some (Exn ''SMTPAuthenticationError''
                    (str_of ''(535, Username and Password not accepted)''))),
     smtp_sendmail = (\<lambda>_ _ _. None),
     smtp_quit = None,
     as_string = (\<lambda>_. Inr [])\<rparr>"

section \<open>Properties of the recorder\<close>

subsection \<open>Draining while the file is open\<close>

lemma len_tags [simp]:
  "length (le32 n) = 4" "length (le16 n) = 2" "length RIFF = 4"
  "length (fmt_rest nch fr sw) = 32" "length (fmt_bytes dl nch fr sw) = 36"
  "length (wav_header nch sw fr dl) = 44"
  by (simp_all add: le32_def le16_def RIFF_def fmt_rest_def fmt_bytes_def wav_header_def
      WAVE_def fmt_tag_def data_tag_def)















lemmas wave_defs = writeframes_def writeframesraw_def ensure_header_written_def
  write_header_def patchheader_def wave_close_def pack_fmt_def pack_L_def

lemmas recorder_defs = start_def stop_def AudioRecorder_init_def setframerate_def setnchannels_def
  setsampwidth_def stream_new_def stream_stop_def stream_close_def wave_open_def

lemmas eval_defs = recorder_defs wave_defs process_queue_next_def callback_def
  env_ok_def no_flags_def flags_set_def file_write_def seek_def fmt_bytes_def fmt_rest_def
  le16_def le32_def RIFF_def WAVE_def fmt_tag_def data_tag_def wav_header_def Let_def

lemma py_round_16000 [simp]: "py_round 16000 = 16000"
  by (simp add: py_round_def)

lemma py_round_2147483648 [simp]: "py_round 2147483648 = 2147483648"
  by (simp add: py_round_def)



text \<open>
  The bound on the data is needed too: once 36 plus the number of data bytes reaches
  \<open>2\<^sup>3\<^sup>2\<close>, \<open>writeframes\<close> raises \<open>struct.error\<close>, and the step of \<open>process_queue\<close> has
  already taken the chunk from the queue.
\<close>

lemma writeframes_overflow:
  assumes "recording_to w d" and "36 + length d < 4294967296"
    and "4294967296 \<le> 36 + length d + length data"
  shows "fst (writeframes w data) = Some struct_error_L"
proof (cases "headerwritten w")
  case True
  have ne: "length data \<noteq> 0" using assms(2,3) by auto
  have f: "\<not> wclosed w" "datawritten w = length d" "datalength w = length d"
    using assms(1) True by (simp_all add: recording_to_def)
  show ?thesis
    using True f ne assms(3)
    by (simp add: writeframes_def writeframesraw_def ensure_header_written_def patchheader_def
        pack_L_def Let_def)
next
  case False
  then have d: "d = []" "nframes w = 0" "\<not> wclosed w" "nchannels w = 1" "sampwidth w = 2"
    "0 < framerate w"
    using assms(1) by (simp_all add: recording_to_def)
  have "4294967260 \<le> length data" using assms(3) d(1) by simp
  then have "4294967260 div 2 \<le> length data div 2" by (rule div_le_mono)
  then have "4294967296 \<le> 36 + length data div 2 * 2" by simp
  then show ?thesis
    using False d
    by (simp add: writeframes_def writeframesraw_def ensure_header_written_def write_header_def
        pack_fmt_def Let_def)
qed

lemma process_queue_next_overflow:
  assumes "wav_file s = Some w" and "recording_to w d" and "36 + length d < 4294967296"
    and "audio_queue s = data # rest" and "4294967296 \<le> 36 + length d + length data"
  shows "fst (process_queue_next s) = Inl struct_error_L
       \<and> audio_queue (snd (process_queue_next s)) = rest"
proof (cases "writeframes w data")
  case (Pair r w')
  with writeframes_overflow [OF assms(2,3,5)] have "r = Some struct_error_L" by simp
  with Pair assms(1,4) show ?thesis
    by (simp add: process_queue_next_def Let_def)
qed

subsection \<open>Draining after \<open>stop\<close>\<close>

text \<open>
  Claim C2, at the input: \<open>start()\<close>, one callback that brings the chunk \<open>b"\x01\x02"\<close>,
  \<open>stop()\<close>, then a full run of \<open>process_queue\<close>. \<open>stop\<close> returns and leaves the chunk in
  the queue. The run of \<open>process_queue\<close> then raises \<open>AttributeError\<close>, from \<open>writeframes\<close>
  on the closed writer that \<open>self.wav_file\<close> still holds: nothing is yielded, the chunk is
  gone from the queue, and the writer is as \<open>stop\<close> left it, its file holding the header
  for no data.
\<close>

theorem drain_after_stop_raises:
  "fst (stop (fst (callback
         (snd (start env_ok (AudioRecorder_init (str_of ''temp_meeting.wav'') 16000)))
         [1, 2] 1 0 no_flags))) = None
   \<and> audio_queue (snd (stop (fst (callback
         (snd (start env_ok (AudioRecorder_init (str_of ''temp_meeting.wav'') 16000)))
         [1, 2] 1 0 no_flags)))) = [[1, 2]]
   \<and> fst (process_queue (snd (stop (fst (callback
         (snd (start env_ok (AudioRecorder_init (str_of ''temp_meeting.wav'') 16000)))
         [1, 2] 1 0 no_flags))))) = Some none_has_no_write
   \<and> fst (snd (process_queue (snd (stop (fst (callback
         (snd (start env_ok (AudioRecorder_init (str_of ''temp_meeting.wav'') 16000)))
         [1, 2] 1 0 no_flags)))))) = []
   \<and> audio_queue (snd (snd (process_queue (snd (stop (fst (callback
         (snd (start env_ok (AudioRecorder_init (str_of ''temp_meeting.wav'') 16000)))
         [1, 2] 1 0 no_flags))))))) = []
   \<and> wav_file (snd (snd (process_queue (snd (stop (fst (callback
         (snd (start env_ok (AudioRecorder_init (str_of ''temp_meeting.wav'') 16000)))
         [1, 2] 1 0 no_flags)))))))
     = wav_file (snd (stop (fst (callback
         (snd (start env_ok (AudioRecorder_init (str_of ''temp_meeting.wav'') 16000)))
         [1, 2] 1 0 no_flags))))
   \<and> map_option (\<lambda>w. fbytes (wfile w)) (wav_file (snd (snd (process_queue (snd (stop
         (fst (callback
         (snd (start env_ok (AudioRecorder_init (str_of ''temp_meeting.wav'') 16000)))
         [1, 2] 1 0 no_flags))))))))
     = Some [82, 73, 70, 70, 36, 0, 0, 0, 87, 65, 86, 69, 102, 109, 116, 32, 16, 0, 0, 0,
             1, 0, 1, 0, 128, 62, 0, 0, 0, 125, 0, 0, 2, 0, 16, 0, 100, 97, 116, 97,
             0, 0, 0, 0]"
  by (simp add: process_queue.simps eval_defs)

subsection \<open>Calling \<open>stop\<close> after a failed start, and twice\<close>









section \<open>Properties of the two Groq clients\<close>

text \<open>
  Claim C9. \<open>process_chunk\<close> returns \<open>None\<close> for every chunk, whether the engine was built
  with a key, with an empty key or with none.
\<close>

theorem process_chunk_is_none:
  "process_chunk self data = None
   \<and> process_chunk (STTEngine_init api_key) data = None"
  by (simp add: process_chunk_def)

text \<open>
  Claim C5. A summarizer built with a non-empty key returns the fixed string for every
  transcript of fewer than 5 characters, among them \<open>""\<close> and \<open>"hi"\<close>, and for \<open>None\<close>; the
  world, and with it the log of the I/O performed, is unchanged, so no request was sent.
\<close>

theorem short_transcript_is_refused_without_network:
  assumes "k \<noteq> []" and "length t < 5"
  shows "generate_summary env w (MeetingSummarizer_init (Some k)) (Some t)
           = (str_of ''Transcript too short to summarize.'', w)
       \<and> generate_summary env w (MeetingSummarizer_init (Some k)) (Some (str_of []))
           = (str_of ''Transcript too short to summarize.'', w)
       \<and> generate_summary env w (MeetingSummarizer_init (Some k)) (Some (str_of ''hi''))
           = (str_of ''Transcript too short to summarize.'', w)
       \<and> generate_summary env w (MeetingSummarizer_init (Some k)) None
           = (str_of ''Transcript too short to summarize.'', w)"
  using assms
  by (simp add: generate_summary_def MeetingSummarizer_init_def groq_client_def str_of_def)

theorem short_transcript_is_refused_without_network_witness:
  "str_of ''gsk_test'' \<noteq> [] \<and> length (str_of ''hiya'') < 5
   \<and> generate_summary offline home (MeetingSummarizer_init (Some (str_of ''gsk_test'')))
        (Some (str_of ''hiya''))
      = (str_of ''Transcript too short to summarize.'', home)
   \<and> io_log (snd (generate_summary offline home
        (MeetingSummarizer_init (Some (str_of ''gsk_test''))) (Some (str_of ''hiya'')))) = []"
proof -
  have h: "str_of ''gsk_test'' \<noteq> []" "length (str_of ''hiya'') < 5"
    by (simp_all add: str_of_def)
  show ?thesis
    using h short_transcript_is_refused_without_network [OF h, of offline home]
    by (simp add: home_def)
qed

text \<open>
  Claim C6. An engine and a summarizer built without a key return the fixed string for
  every file name and every transcript; the world, and with it the log of the I/O
  performed, is unchanged: no file was opened and no request was sent.
\<close>

theorem missing_key_short_circuits:
  "transcribe_file env w (STTEngine_init None) filename
     = (str_of ''Error: Groq API Key missing.'', w)
   \<and> generate_summary env w (MeetingSummarizer_init None) transcript
     = (str_of ''Error: Groq API Key missing.'', w)"
  by (simp add: transcribe_file_def generate_summary_def STTEngine_init_def
      MeetingSummarizer_init_def groq_client_def)

theorem missing_key_short_circuits_witness:
  "transcribe_file offline home (STTEngine_init None) (str_of ''temp_meeting.wav'')
     = (str_of ''Error: Groq API Key missing.'', home)
   \<and> generate_summary offline home (MeetingSummarizer_init None)
        (Some (str_of ''We met and agreed on the plan.''))
     = (str_of ''Error: Groq API Key missing.'', home)"
  using missing_key_short_circuits [of offline home "str_of ''temp_meeting.wav''"
      "Some (str_of ''We met and agreed on the plan.'')"]
  by simp

text \<open>
  Claim C10. The empty string as key builds the same clients as no key, and both
  operations then return the fixed missing-key string for every input, the world
  unchanged.
\<close>

theorem empty_key_is_missing_key:
  "STTEngine_init (Some (str_of [])) = STTEngine_init None
   \<and> MeetingSummarizer_init (Some (str_of [])) = MeetingSummarizer_init None
   \<and> transcribe_file env w (STTEngine_init (Some (str_of []))) filename
       = (str_of ''Error: Groq API Key missing.'', w)
   \<and> generate_summary env w (MeetingSummarizer_init (Some (str_of []))) transcript
       = (str_of ''Error: Groq API Key missing.'', w)
   \<and> transcribe_file env w (STTEngine_init (Some (str_of []))) filename
       = transcribe_file env w (STTEngine_init None) filename
   \<and> generate_summary env w (MeetingSummarizer_init (Some (str_of []))) transcript
       = generate_summary env w (MeetingSummarizer_init None) transcript"
  by (simp add: transcribe_file_def generate_summary_def STTEngine_init_def
      MeetingSummarizer_init_def groq_client_def str_of_def)

theorem empty_key_is_missing_key_witness:
  "transcribe_file offline home (STTEngine_init (Some (str_of []))) (str_of ''temp_meeting.wav'')
     = (str_of ''Error: Groq API Key missing.'', home)
   \<and> generate_summary offline home (MeetingSummarizer_init (Some (str_of [])))
        (Some (str_of ''We met and agreed on the plan.''))
     = (str_of ''Error: Groq API Key missing.'', home)"
  using empty_key_is_missing_key [of offline home "str_of ''temp_meeting.wav''"
      "Some (str_of ''We met and agreed on the plan.'')"]
  by blast

section \<open>Properties of the model downloader\<close>

text \<open>
  Claim C7. When a directory named \<open>model_name\<close> exists in the working directory, the
  function returns \<open>model_name\<close> and the world is what it was: the file tree is unchanged,
  nothing is printed and the log of the I/O performed gains no entry, so no request was
  sent.
\<close>

theorem existing_model_directory_is_returned_untouched:
  assumes "os_path_isdir w model_name"
  shows "check_and_download_model env w model_name = (Inr model_name, w)"
  using assms
  by (auto simp add: check_and_download_model_def os_path_isdir_def os_path_exists_def
      split: sum.splits)

theorem existing_model_directory_is_returned_untouched_witness:
  "os_path_isdir home (str_of ''vosk-model-small-en-us-0.15'')
   \<and> check_and_download_model offline home (str_of ''vosk-model-small-en-us-0.15'')
       = (Inr (str_of ''vosk-model-small-en-us-0.15''), home)"
proof -
  have h: "os_path_isdir home (str_of ''vosk-model-small-en-us-0.15'')"
    by code_simp
  show ?thesis
    using h existing_model_directory_is_returned_untouched [OF h, of offline] by simp
qed

section \<open>Properties of the utilities\<close>

subsection \<open>send_email_func\<close>

lemma smtp_session_cases:
  "fst (smtp_session env w user password recipient msg) =
     (case smtp_connect env (str_of ''smtp.gmail.com'') 587 of
        Some e \<Rightarrow> Some e
      | None \<Rightarrow>
         (case smtp_starttls env of
            Some e \<Rightarrow> Some e
          | None \<Rightarrow>
             (case smtp_login env user password of
                Some e \<Rightarrow> Some e
              | None \<Rightarrow>
                 (case as_string env msg of
                    Inl e \<Rightarrow> Some e
                  | Inr text \<Rightarrow>
                     (case smtp_sendmail env user recipient text of
                        Some e \<Rightarrow> Some e
                      | None \<Rightarrow> smtp_quit env)))))"
  by (simp add: smtp_session_def Let_def split: option.splits sum.splits)

text \<open>
  Once the message is built, the function returns: the success string, or the error
  string made of the exception that left the session.
\<close>

lemma send_email_func_result:
  assumes "MIMEText body = Inr part"
  shows "fst (send_email_func env w user password recipient subject body) =
     Inr (case fst (smtp_session env w user password recipient
                     \<lparr>headers = [(''From'', user), (''To'', recipient), (''Subject'', subject)],
                      parts = [part]\<rparr>) of
            None \<Rightarrow> str_of ''Email sent!''
          | Some e \<Rightarrow> str_of ''Email Error: '' @ exn_str e)"
  using assms
  by (simp add: send_email_func_def Let_def split: prod.splits option.splits)

text \<open>The function raises exactly when \<open>MIMEText\<close> does, and then nothing was sent.\<close>

lemma MIMEText_error_escapes:
  assumes "MIMEText body = Inl e"
  shows "send_email_func env w user password recipient subject body = (Inl e, w)"
  using assms by (simp add: send_email_func_def)

lemma MIMEText_raises_iff:
  "(\<exists>e. MIMEText body = Inl e) \<longleftrightarrow> \<not> surrogateescape_encodable body"
  by (auto simp: MIMEText_def surrogateescape_encodable_def is_surrogate_def list_all_iff)

text \<open>
  Claim C4, at the input \<open>body = "Hi\ud800"\<close>. Whatever the mail server does, and for
  every user, password, recipient and subject, the call does not return a string:
  \<open>MIMEText\<close>, which runs before the \<open>try\<close>, raises \<open>UnicodeEncodeError\<close> and the exception
  reaches the caller; the world is untouched, no connection was attempted.
\<close>

theorem send_email_func_raises_on_lone_surrogate:
  "send_email_func env w user password recipient subject [72, 105, 0xD800]
     = (Inl unicode_encode_error, w)"
  by (simp add: send_email_func_def MIMEText_def surrogateescape_encodable_def is_surrogate_def)

subsection \<open>posixpath on absolute paths\<close>

lemma startswith_sep_Cons [simp]: "startswith (c # p) [sep] \<longleftrightarrow> c = sep"
  by (simp add: startswith_def)

lemma startswith_Nil [simp]: "\<not> startswith [] (x # xs)"
  by (simp add: startswith_def)




subsection \<open>The UTF-8 codec\<close>

















subsection \<open>save_to_md\<close>












end
